theory Spec2Isabelle
  imports Complex_Main "HOL-Library.Word"
begin

section \<open>Conversation state (zagent/core/state.py)\<close>

text \<open>
  Python text is modelled as \<^typ>\<open>string\<close>, each character standing for one code point
  below 256; the signature engine further down, whose behaviour depends on code points
  beyond that range, works on lists of code points instead.

  Exceptions are values: every function that can raise returns the exception it raised.
  \<open>KeyboardInterrupt\<close> is the one among them that \<open>except Exception\<close> does not catch.
\<close>

datatype py_error =
    RuntimeError string
  | ValueError string
  | UnicodeEncodeError
  | ConnectionError
  | HTTPError nat
  | AttributeError
  | TypeError
  | KeyboardInterrupt

text \<open>
  The feature dictionary of \<open>ChatState\<close> holds named booleans and, under the key
  \<open>flags\<close>, a list of strings (the shape of \<open>DEFAULT_FEATURES\<close>). A key may be absent;
  \<open>_feature_value\<close> then yields the caller's default.
\<close>

record features =
  feature_bools :: "string \<rightharpoonup> bool"
  feature_flags :: "string list option"

definition DEFAULT_FEATURES :: features where
  "DEFAULT_FEATURES =
     \<lparr> feature_bools =
         [''preview_mode'' \<mapsto> True, ''enable_thinking'' \<mapsto> False,
          ''image_generation'' \<mapsto> False, ''web_search'' \<mapsto> False,
          ''auto_web_search'' \<mapsto> False],
       feature_flags = Some [] \<rparr>"

text \<open>
  \<open>_uuid_factory\<close> is a callable with hidden state. It is modelled by the sequence of
  the values it returns, \<open>uuid_factory\<close>, and the number of calls made so far,
  \<open>uuid_calls\<close>.
\<close>

record chat_state =
  model :: string
  chat_id :: "string option"
  user_name :: string
  user_language :: string
  user_timezone :: string
  system_prompt :: "string option"
  features :: features
  runtime_show_thinking :: bool
  runtime_thinking_color :: string
  current_user_message_id :: "string option"
  current_user_message_parent_id :: "string option"
  current_assistant_message_id :: "string option"
  current_assistant_content :: string
  uuid_factory :: "nat \<Rightarrow> string"
  uuid_calls :: nat

text \<open>Python truthiness of a value of type \<open>str | None\<close>.\<close>

fun truthy :: "string option \<Rightarrow> bool" where
  "truthy None = False"
| "truthy (Some s) = (s \<noteq> [])"

definition begin_turn :: "chat_state \<Rightarrow> string \<Rightarrow> (string \<times> string) \<times> chat_state" where
  "begin_turn s prompt =
     (let user_message_id = uuid_factory s (uuid_calls s);
          assistant_message_id = uuid_factory s (uuid_calls s + 1)
      in ((user_message_id, assistant_message_id),
          s\<lparr> uuid_calls := uuid_calls s + 2,
             current_user_message_id := Some user_message_id,
             current_assistant_message_id := Some assistant_message_id,
             current_assistant_content := [] \<rparr>))"

definition apply_assistant_delta :: "chat_state \<Rightarrow> string \<Rightarrow> chat_state" where
  "apply_assistant_delta s delta =
     s\<lparr> current_assistant_content := current_assistant_content s @ delta \<rparr>"

definition finish_turn :: "chat_state \<Rightarrow> chat_state" where
  "finish_turn s =
     s\<lparr> current_user_message_parent_id := current_assistant_message_id s \<rparr>"

definition system_params :: "chat_state \<Rightarrow> (string \<times> string) list" where
  "system_params s =
     (case system_prompt s of
        None \<Rightarrow> []
      | Some sp \<Rightarrow>
          if sp = [] then []
          else [(''system'', sp), (''system_prompt'', sp),
                (''assistant_system_prompt'', sp)])"

definition system_extra :: "chat_state \<Rightarrow> (string \<times> string) list" where
  "system_extra s =
     (case system_prompt s of
        None \<Rightarrow> []
      | Some sp \<Rightarrow>
          if sp = [] then []
          else [(''system'', sp), (''system_prompt'', sp),
                (''assistant_system_prompt'', sp), (''instructions'', sp)])"

definition feature_value :: "chat_state \<Rightarrow> string \<Rightarrow> bool \<Rightarrow> bool" where
  "feature_value s key dflt =
     (case feature_bools (features s) key of None \<Rightarrow> dflt | Some b \<Rightarrow> b)"

definition feature_flag_list :: "chat_state \<Rightarrow> string list" where
  "feature_flag_list s =
     (case feature_flags (features s) of None \<Rightarrow> [] | Some fl \<Rightarrow> fl)"

record payload_features =
  pf_preview_mode :: bool
  pf_enable_thinking :: bool
  pf_image_generation :: bool
  pf_web_search :: bool
  pf_auto_web_search :: bool
  pf_flags :: "string list"

record message =
  msg_role :: string
  msg_content :: string

record completion_payload =
  p_stream :: bool
  p_model :: string
  p_messages :: "message list"
  p_signature_prompt :: string
  p_params :: "(string \<times> string) list"
  p_extra :: "(string \<times> string) list"
  p_features :: payload_features
  p_variables :: "(string \<times> string) list"
  p_chat_id :: string
  p_id :: string
  p_current_user_message_id :: string
  p_current_user_message_parent_id :: "string option"
  p_title_generation :: bool
  p_tags_generation :: bool

text \<open>
  \<open>build_completion_payload\<close> reads the wall clock once (\<open>datetime.now().astimezone()\<close>)
  and formats it four times; the four formatted texts are the parameter \<open>now\<close>.
\<close>

record wall_clock =
  now_datetime :: string
  now_date :: string
  now_time :: string
  now_weekday :: string

definition build_completion_payload ::
  "wall_clock \<Rightarrow> chat_state \<Rightarrow> string \<Rightarrow> py_error + completion_payload" where
  "build_completion_payload now s prompt =
     (if \<not> truthy (chat_id s) then
        Inl (RuntimeError ''chat_id is required before completion'')
      else if \<not> truthy (current_user_message_id s) \<or>
              \<not> truthy (current_assistant_message_id s) then
        Inl (RuntimeError ''begin_turn must be called before build_completion_payload'')
      else
        (case (chat_id s, current_user_message_id s, current_assistant_message_id s) of
           (Some cid, Some uid, Some aid) \<Rightarrow>
             Inr \<lparr> p_stream = True,
                   p_model = model s,
                   p_messages = [\<lparr> msg_role = ''user'', msg_content = prompt \<rparr>],
                   p_signature_prompt = prompt,
                   p_params = system_params s,
                   p_extra = system_extra s,
                   p_features =
                     \<lparr> pf_preview_mode = feature_value s ''preview_mode'' True,
                       pf_enable_thinking = feature_value s ''enable_thinking'' False,
                       pf_image_generation = feature_value s ''image_generation'' False,
                       pf_web_search = feature_value s ''web_search'' False,
                       pf_auto_web_search = feature_value s ''auto_web_search'' False,
                       pf_flags = feature_flag_list s \<rparr>,
                   p_variables =
                     [(''{{USER_NAME}}'', user_name s),
                      (''{{USER_LOCATION}}'', ''Unknown''),
                      (''{{CURRENT_DATETIME}}'', now_datetime now),
                      (''{{CURRENT_DATE}}'', now_date now),
                      (''{{CURRENT_TIME}}'', now_time now),
                      (''{{CURRENT_WEEKDAY}}'', now_weekday now),
                      (''{{CURRENT_TIMEZONE}}'', user_timezone s),
                      (''{{USER_LANGUAGE}}'', user_language s)]
                     @ (case system_prompt s of
                          None \<Rightarrow> []
                        | Some sp \<Rightarrow> if sp = [] then [] else [(''{{SYSTEM_PROMPT}}'', sp)]),
                   p_chat_id = cid,
                   p_id = aid,
                   p_current_user_message_id = uid,
                   p_current_user_message_parent_id = current_user_message_parent_id s,
                   p_title_generation = True,
                   p_tags_generation = True \<rparr>
         | _ \<Rightarrow> Inl (RuntimeError ''begin_turn must be called before build_completion_payload'')))"

text \<open>The state a fresh \<open>ChatState(...)\<close> has, for a given identifier factory.\<close>

definition ChatState :: "(nat \<Rightarrow> string) \<Rightarrow> chat_state" where
  "ChatState f =
     \<lparr> model = ''GLM-4-6-API-V1'', chat_id = None, user_name = ''User'',
       user_language = ''en-US'', user_timezone = ''UTC'', system_prompt = None,
       features = DEFAULT_FEATURES, runtime_show_thinking = True,
       runtime_thinking_color = ''gray'', current_user_message_id = None,
       current_user_message_parent_id = None, current_assistant_message_id = None,
       current_assistant_content = [], uuid_factory = f, uuid_calls = 0 \<rparr>"

subsection \<open>Decimal rendering of integers (\<open>str(n)\<close>)\<close>

definition digit_char :: "nat \<Rightarrow> char" where
  "digit_char d = ''0123456789'' ! d"

fun str_nat :: "nat \<Rightarrow> string" where
  "str_nat n =
     (if n < 10 then [digit_char n] else str_nat (n div 10) @ [digit_char (n mod 10)])"

declare str_nat.simps [simp del]

definition str_int :: "int \<Rightarrow> string" where
  "str_int i = (if i < 0 then CHR ''-'' # str_nat (nat (- i)) else str_nat (nat i))"

text \<open>
  The conversion between \<open>int\<close> and decimal text is limited to 4300 digits (the default of
  \<open>sys.set_int_max_str_digits\<close>, CPython 3.11): \<open>str(n)\<close> and the formatting of \<open>n\<close> in an
  f-string raise \<open>ValueError\<close> when \<open>n\<close> has more digits than that.
\<close>

definition MAX_STR_DIGITS :: nat where
  "MAX_STR_DIGITS = 4300"

definition int_to_str_error :: py_error where
  "int_to_str_error =
     ValueError (''Exceeds the limit (4300 digits) for integer string conversion; ''
                 @ ''use sys.set_int_max_str_digits() to increase the limit'')"

definition py_str_int :: "int \<Rightarrow> py_error + string" where
  "py_str_int i =
     (if MAX_STR_DIGITS < length (str_nat (nat \<bar>i\<bar>)) then Inl int_to_str_error
      else Inr (str_int i))"

section \<open>Streaming client (zagent/core/client.py)\<close>

text \<open>
  What \<open>json.loads\<close> returns: a JSON value as Python has it. \<open>null\<close> is \<open>None\<close>; a number
  written without fraction and exponent is an \<open>int\<close>, any other a \<open>float\<close>; an object is a
  dictionary from its keys to their values.
\<close>

datatype json =
    JNull
  | JBool bool
  | JInt int
  | JFloat real
  | JString string
  | JArray "json list"
  | JObject "string \<Rightarrow> json option"

text \<open>Python truthiness of such a value: \<open>not v\<close> is its negation.\<close>

fun json_truthy :: "json \<Rightarrow> bool" where
  "json_truthy JNull = False"
| "json_truthy (JBool b) = b"
| "json_truthy (JInt i) = (i \<noteq> 0)"
| "json_truthy (JFloat r) = (r \<noteq> 0)"
| "json_truthy (JString s) = (s \<noteq> [])"
| "json_truthy (JArray xs) = (xs \<noteq> [])"
| "json_truthy (JObject d) = (d \<noteq> Map.empty)"

text \<open>\<open>d.get(key, default)\<close> on a dictionary.\<close>

definition dict_get :: "(string \<Rightarrow> json option) \<Rightarrow> string \<Rightarrow> json \<Rightarrow> json" where
  "dict_get d key dflt = (case d key of None \<Rightarrow> dflt | Some v \<Rightarrow> v)"

text \<open>
  How a call of \<open>json.loads\<close> ends: with a value, with \<open>JSONDecodeError\<close>, or with another
  exception (the \<open>ValueError\<close> of an integer literal of more than 4300 digits, the
  \<open>RecursionError\<close> of a deeply nested text).
\<close>

datatype loads_result =
    Loaded json
  | JSONDecodeError
  | OtherException

text \<open>
  A line as \<open>iter_lines(decode_unicode=True)\<close> delivers it: text, or bytes when the
  response declares no encoding.
\<close>

datatype raw_line =
    Str string
  | Bytes "8 word list"

text \<open>
  What the transport does with one completion request: \<open>session.post\<close> fails to connect,
  or a response arrives with a status code and a body that \<open>iter_lines\<close> delivers line by
  line. After the lines delivered the body ends normally, or breaks off with a network
  error, or the user interrupts the program (\<open>KeyboardInterrupt\<close>) while the next line is
  awaited.
\<close>

datatype body_end =
    EndOfBody
  | NetworkError
  | UserInterrupt

datatype http_exchange =
    ConnectionFailed
  | Response nat "raw_line list" body_end

text \<open>
  One pass through the body of the \<open>for raw_line in resp.iter_lines(...)\<close> loop: it goes
  on with the next line, or yields an event and then goes on, or raises an exception that
  the enclosing \<open>except Exception: pass\<close> catches, which ends the generator. \<open>json.loads\<close>
  is a parameter. Only \<open>JSONDecodeError\<close> is caught inside the loop; \<open>startswith\<close> with
  a \<open>str\<close> argument raises \<open>TypeError\<close> on bytes.
\<close>

datatype line_step =
    NextLine
  | Yield json
  | EndStream

definition decode_line :: "(string \<Rightarrow> loads_result) \<Rightarrow> raw_line \<Rightarrow> line_step" where
  "decode_line json_loads raw_line =
     (case raw_line of
        Bytes bs \<Rightarrow> if bs = [] then NextLine else EndStream
      | Str s \<Rightarrow>
          if s = [] then NextLine
          else
            let content = (if take 6 s = ''data: '' then drop 6 s else s)
            in if content = [] \<or> content = ''[DONE]'' then NextLine
               else
                 (case json_loads content of
                    Loaded event \<Rightarrow> Yield event
                  | JSONDecodeError \<Rightarrow> NextLine
                  | OtherException \<Rightarrow> EndStream))"

text \<open>
  A generator is modelled by the list of the values it yields together with the
  exception, if any, that it raises after the last of them. \<open>iter_body\<close> is the \<open>try\<close>
  statement of \<open>stream_completion\<close>: a network error while the body is read is caught like
  every other \<open>Exception\<close>, the events decoded so far have been yielded and the generator
  ends; \<open>KeyboardInterrupt\<close> is not caught.
\<close>

fun iter_body ::
  "(string \<Rightarrow> loads_result) \<Rightarrow> raw_line list \<Rightarrow> body_end \<Rightarrow> json list \<times> py_error option" where
  "iter_body json_loads [] ending =
     ([], if ending = UserInterrupt then Some KeyboardInterrupt else None)"
| "iter_body json_loads (raw_line # rest) ending =
     (case decode_line json_loads raw_line of
        NextLine \<Rightarrow> iter_body json_loads rest ending
      | Yield event \<Rightarrow>
          (let (events, raised) = iter_body json_loads rest ending
           in (event # events, raised))
      | EndStream \<Rightarrow> ([], None))"

text \<open>
  \<open>stream_completion\<close>: \<open>session.post\<close> and \<open>resp.raise_for_status()\<close> stand before the
  \<open>try\<close>, so their exceptions leave the generator before it has yielded anything;
  \<open>raise_for_status\<close> raises for the status codes 400 to 599. The query string and the
  signature header go to the server and do not influence what the function does with the
  response; the signature is modelled below.
\<close>

definition stream_completion ::
  "(string \<Rightarrow> loads_result) \<Rightarrow> http_exchange \<Rightarrow> json list \<times> py_error option" where
  "stream_completion json_loads x =
     (case x of
        ConnectionFailed \<Rightarrow> ([], Some ConnectionError)
      | Response status lines ending \<Rightarrow>
          if 400 \<le> status \<and> status < 600 then ([], Some (HTTPError status))
          else iter_body json_loads lines ending)"

section \<open>Tools (zagent/tools)\<close>

text \<open>
  What a tool can touch: the text printed to the terminal, piece by piece, and a file
  system (or whatever else the tool works on), of type \<open>'f\<close>.
\<close>

record 'f os =
  stdout :: "string list"
  fs :: 'f

definition print_out :: "string \<Rightarrow> 'f os \<Rightarrow> 'f os" where
  "print_out text w = w\<lparr> stdout := stdout w @ [text] \<rparr>"

text \<open>
  \<open>BaseTool\<close>: \<open>can_handle\<close> and \<open>extract_request\<close> only read the message; \<open>execute\<close> acts on
  the world and returns the formatted result. The \<open>context\<close> argument is \<open>None\<close> at every
  call and no tool reads it; it is left out.
\<close>

record 'f tool =
  name :: string
  description :: string
  can_handle :: "string \<Rightarrow> bool"
  extract_request :: "string \<Rightarrow> string option"
  execute :: "string \<Rightarrow> 'f os \<Rightarrow> string \<times> 'f os"

text \<open>
  \<open>ToolRegistry\<close>: \<open>_tools\<close> is a dictionary, which keeps its keys in insertion order (an
  association list with one entry per key); \<open>_enabled_tools\<close> is a set of names.
\<close>

record 'f tool_registry =
  tools :: "(string \<times> 'f tool) list"
  enabled_tools :: "string set"

definition empty_registry :: "'f tool_registry" where
  "empty_registry = \<lparr> tools = [], enabled_tools = {} \<rparr>"

fun dict_set :: "string \<Rightarrow> 'v \<Rightarrow> (string \<times> 'v) list \<Rightarrow> (string \<times> 'v) list" where
  "dict_set k v [] = [(k, v)]"
| "dict_set k v ((k', v') # kvs) =
     (if k' = k then (k, v) # kvs else (k', v') # dict_set k v kvs)"

definition register :: "'f tool_registry \<Rightarrow> 'f tool \<Rightarrow> bool \<Rightarrow> 'f tool_registry" where
  "register reg t enabled =
     (let reg' = reg\<lparr> tools := dict_set (name t) t (tools reg) \<rparr>
      in if enabled then reg'\<lparr> enabled_tools := insert (name t) (enabled_tools reg') \<rparr>
         else reg')"

definition enable :: "'f tool_registry \<Rightarrow> string \<Rightarrow> 'f tool_registry" where
  "enable reg tool_name =
     (if tool_name \<in> fst ` set (tools reg)
      then reg\<lparr> enabled_tools := insert tool_name (enabled_tools reg) \<rparr> else reg)"

definition disable :: "'f tool_registry \<Rightarrow> string \<Rightarrow> 'f tool_registry" where
  "disable reg tool_name = reg\<lparr> enabled_tools := enabled_tools reg - {tool_name} \<rparr>"

definition get_enabled_tools :: "'f tool_registry \<Rightarrow> 'f tool list" where
  "get_enabled_tools reg =
     map snd (filter (\<lambda>(nm, t). nm \<in> enabled_tools reg) (tools reg))"

definition find_tool_for_message :: "'f tool_registry \<Rightarrow> string \<Rightarrow> 'f tool option" where
  "find_tool_for_message reg message =
     List.find (\<lambda>t. can_handle t message) (get_enabled_tools reg)"

definition execute_if_applicable ::
  "'f tool_registry \<Rightarrow> string \<Rightarrow> 'f os \<Rightarrow> (bool \<times> string option) \<times> 'f os" where
  "execute_if_applicable reg message w =
     (case find_tool_for_message reg message of
        None \<Rightarrow> ((False, None), w)
      | Some t \<Rightarrow>
          (case extract_request t message of
             None \<Rightarrow> ((False, None), w)
           | Some request \<Rightarrow>
               if request = [] then ((False, None), w)
               else
                 let (result, w') = execute t request w
                 in ((True, Some result), w')))"

subsection \<open>Tool results (zagent/tools/base.py)\<close>

text \<open>
  \<open>ToolResult\<close>; its fields carry the prefix \<open>tr_\<close> here. Metadata values are kept as
  the text \<open>str(value)\<close> that \<open>format\<close> prints.
\<close>

record tool_result =
  tr_tool_name :: string
  tr_request :: string
  tr_success :: bool
  tr_output :: string
  tr_error :: string
  tr_metadata :: "(string \<times> string) list"

definition NL :: string where
  "NL = [CHR 0x0A]"

fun join :: "string \<Rightarrow> string list \<Rightarrow> string" where
  "join sep [] = []"
| "join sep [x] = x"
| "join sep (x # y # ys) = x @ sep @ join sep (y # ys)"

definition format_result :: "tool_result \<Rightarrow> string" where
  "format_result r =
     join NL
       ([''TOOL_RESULT '' @ tr_tool_name r,
         ''request: '' @ tr_request r,
         ''success: '' @ (if tr_success r then ''yes'' else ''no'')]
        @ (if tr_output r \<noteq> [] then [''output:'' @ NL @ tr_output r] else [])
        @ (if tr_error r \<noteq> [] then [''error:'' @ NL @ tr_error r] else [])
        @ map (\<lambda>(key, v). key @ '': '' @ v) (tr_metadata r))"

subsection \<open>Text helpers\<close>

text \<open>
  \<open>split_on sep s\<close>, for a separator that is not empty: the text before and the text
  after the first occurrence of \<open>sep\<close> in \<open>s\<close> (\<open>s.split(sep, 1)\<close> when \<open>sep\<close> occurs; also
  the position at which a lazy \<open>(.*?)\<close> followed by the literal \<open>sep\<close> stops).
\<close>

fun split_on :: "string \<Rightarrow> string \<Rightarrow> (string \<times> string) option" where
  "split_on sep [] = (if sep = [] then Some ([], []) else None)"
| "split_on sep (c # cs) =
     (if take (length sep) (c # cs) = sep then Some ([], drop (length sep) (c # cs))
      else map_option (\<lambda>(before, after). (c # before, after)) (split_on sep cs))"

text \<open>The code points below 256 for which \<open>str.isspace\<close> holds (also the regex class \<open>\s\<close>).\<close>

definition is_space :: "char \<Rightarrow> bool" where
  "is_space c =
     (let n = of_char c :: nat
      in (9 \<le> n \<and> n \<le> 13) \<or> (28 \<le> n \<and> n \<le> 32) \<or> n = 133 \<or> n = 160)"

definition strip :: "string \<Rightarrow> string" where
  "strip s = rev (dropWhile is_space (rev (dropWhile is_space s)))"

text \<open>The code points below 256 that the regex class \<open>\d\<close> matches and \<open>int\<close> reads.\<close>

definition is_digit :: "char \<Rightarrow> bool" where
  "is_digit c = (let n = of_char c :: nat in 48 \<le> n \<and> n \<le> 57)"

definition int_of_digits :: "string \<Rightarrow> nat" where
  "int_of_digits ds = foldl (\<lambda>acc c. 10 * acc + (of_char c - 48)) 0 ds"

text \<open>
  \<open>int(ds)\<close> for a text of decimal digits: beyond 4300 digits it raises \<open>ValueError\<close>,
  with a message that names the number of digits.
\<close>

definition str_to_int_error :: "nat \<Rightarrow> py_error" where
  "str_to_int_error n =
     ValueError (''Exceeds the limit (4300 digits) for integer string conversion: value has ''
                 @ str_nat n
                 @ '' digits; use sys.set_int_max_str_digits() to increase the limit'')"

definition py_int :: "string \<Rightarrow> py_error + nat" where
  "py_int ds =
     (if MAX_STR_DIGITS < length ds then Inl (str_to_int_error (length ds))
      else Inr (int_of_digits ds))"

subsection \<open>EchoTool (zagent/tools/echo_tool.py)\<close>



subsection \<open>ReportTool (zagent/tools/report_tool.py)\<close>

text \<open>Files by path; \<open>None\<close> is a path at which nothing exists.\<close>

type_synonym filesystem = "string \<rightharpoonup> string"

definition REPORT_FILE :: string where
  "REPORT_FILE = ''report.md''"

text \<open>
  \<open>re.findall(r"### ID: (\d+)", content)\<close>: the scan goes from left to right; where the
  literal is followed by at least one digit the whole run of digits is taken and the scan
  goes on behind it, otherwise it goes on one character further.
\<close>

function findall_ids :: "string \<Rightarrow> string list" where
  "findall_ids [] = []"
| "findall_ids (c # cs) =
     (if take 8 (c # cs) = ''### ID: '' \<and> takeWhile is_digit (drop 8 (c # cs)) \<noteq> []
      then takeWhile is_digit (drop 8 (c # cs))
             # findall_ids (dropWhile is_digit (drop 8 (c # cs)))
      else findall_ids cs)"
  by pat_completeness auto
termination
proof (relation "measure length")
  fix c cs
  have "length (dropWhile is_digit (drop 8 (c # cs))) \<le> length (drop 8 (c # cs))"
    by (rule length_dropWhile_le)
  also have "\<dots> < length (c # cs)" by simp
  finally show "(dropWhile is_digit (drop 8 (c # cs)), c # cs) \<in> measure length" by simp
qed auto

fun list_max :: "nat list \<Rightarrow> nat" where
  "list_max [] = 0"
| "list_max (x # xs) = fold max xs x"

definition format_03d :: "nat \<Rightarrow> string" where
  "format_03d n = replicate (3 - length (str_nat n)) (CHR ''0'') @ str_nat n"

text \<open>
  The generator \<open>int(i) for i in ids\<close> as \<open>max\<close> consumes it: the identifiers are
  converted in order, and the first that \<open>int\<close> refuses raises.
\<close>

fun ints_of :: "string list \<Rightarrow> py_error + nat list" where
  "ints_of [] = Inr []"
| "ints_of (i # ids) =
     (case py_int i of
        Inl err \<Rightarrow> Inl err
      | Inr n \<Rightarrow>
          (case ints_of ids of
             Inl err \<Rightarrow> Inl err
           | Inr ns \<Rightarrow> Inr (n # ns)))"

text \<open>
  \<open>_get_next_id\<close>. The format \<open>{last_id + 1:03d}\<close> is subject to the limit of 4300 digits
  too.
\<close>

definition get_next_id :: "filesystem \<Rightarrow> py_error + string" where
  "get_next_id files =
     (case files REPORT_FILE of
        None \<Rightarrow> Inr ''001''
      | Some content \<Rightarrow>
          let ids = findall_ids content
          in if ids = [] then Inr ''001''
             else
               (case ints_of ids of
                  Inl err \<Rightarrow> Inl err
                | Inr ns \<Rightarrow>
                    let last_id = list_max ns
                    in if MAX_STR_DIGITS < length (str_nat (last_id + 1))
                       then Inl int_to_str_error
                       else Inr (format_03d (last_id + 1))))"

text \<open>
  \<open>str(e)\<close> in an exception handler: the message of the exception. The handler of
  \<open>execute\<close> below is the only one that asks for it, and only \<open>ValueError\<close> reaches it.
\<close>

definition exception_text :: "py_error \<Rightarrow> string" where
  "exception_text err =
     (case err of RuntimeError msg \<Rightarrow> msg | ValueError msg \<Rightarrow> msg | _ \<Rightarrow> [])"

text \<open>
  \<open>ReportTool.execute\<close>; \<open>timestamp\<close> is the text \<open>datetime.now().strftime(...)\<close> returns
  at the call. Opening the file in mode \<open>a\<close> appends to what exists, in mode \<open>w\<close> creates
  it. A request without \<open>|\<close> raises \<open>ValueError\<close> inside the \<open>try\<close>, and so may
  \<open>_get_next_id\<close>, before anything is written; the handler turns the exception into a
  failed result, whose request is the text before the first \<open>|\<close>.
\<close>

definition report_entry :: "string \<Rightarrow> string \<Rightarrow> string \<Rightarrow> string \<Rightarrow> string" where
  "report_entry next_id title timestamp content =
     NL @ ''---'' @ NL
     @ ''### ID: '' @ next_id @ NL
     @ ''**Title**: '' @ title @ NL
     @ ''**Date**: '' @ timestamp @ NL @ NL
     @ content @ NL"

definition REPORT_HEADER :: string where
  "REPORT_HEADER = ''# ZAgent Security Report'' @ NL @ NL"

definition report_failed :: "string \<Rightarrow> string \<Rightarrow> string" where
  "report_failed request error =
     format_result
       \<lparr> tr_tool_name = ''report'', tr_request = request, tr_success = False,
         tr_output = [], tr_error = error, tr_metadata = [] \<rparr>"

definition report_execute :: "string \<Rightarrow> string \<Rightarrow> filesystem os \<Rightarrow> string \<times> filesystem os" where
  "report_execute timestamp request w =
     (case split_on ''|'' request of
        None \<Rightarrow> (report_failed request ''Invalid report format'', w)
      | Some (title, content) \<Rightarrow>
          (case get_next_id (fs w) of
             Inl err \<Rightarrow> (report_failed title (exception_text err), w)
           | Inr next_id \<Rightarrow>
               let entry = report_entry next_id title timestamp content;
                   files' =
                     (case fs w REPORT_FILE of
                        Some old \<Rightarrow> (fs w)(REPORT_FILE \<mapsto> old @ entry)
                      | None \<Rightarrow> (fs w)(REPORT_FILE \<mapsto> REPORT_HEADER @ entry));
                   w' = print_out
                          (NL @ ''[tool] assistant added finding '' @ next_id @ '': '' @ title @ NL)
                          (w\<lparr> fs := files' \<rparr>)
               in (format_result
                     \<lparr> tr_tool_name = ''report'', tr_request = title, tr_success = True,
                       tr_output = ''Finding '' @ next_id @ '' successfully added to '' @ REPORT_FILE,
                       tr_error = [],
                       tr_metadata = [(''id'', next_id), (''title'', title)] \<rparr>, w')))"

text \<open>
  \<open>_REPORT_RE\<close>, the pattern \<^verbatim>\<open><report\s+title=["'](.*?)["']>(.*?)</report>\<close> with
  \<open>re.DOTALL\<close>. A match at a given position: the literal, at least one white-space
  character (all of them, since \<open>title=\<close> must follow), \<open>title=\<close>, a quote of either kind,
  then the title up to the first quote of either kind that is followed by \<open>>\<close>, then the
  body up to the first \<open></report>\<close>. (When no \<open></report>\<close> follows the first such quote,
  none follows a later one.) \<open>search\<close> takes the leftmost position that has a match.
\<close>

definition is_quote :: "char \<Rightarrow> bool" where
  "is_quote c = (c = CHR 0x22 \<or> c = CHR 0x27)"

fun split_on_quote_gt :: "string \<Rightarrow> (string \<times> string) option" where
  "split_on_quote_gt (c # d # cs) =
     (if is_quote c \<and> d = CHR ''>'' then Some ([], cs)
      else map_option (\<lambda>(before, after). (c # before, after)) (split_on_quote_gt (d # cs)))"
| "split_on_quote_gt cs = None"

definition report_match_here :: "string \<Rightarrow> (string \<times> string) option" where
  "report_match_here s =
     (if take 7 s \<noteq> ''<report'' then None
      else
        let rest = drop 7 s;
            after_space = dropWhile is_space rest
        in if takeWhile is_space rest = [] then None
           else if take 6 after_space \<noteq> ''title='' then None
           else
             (case drop 6 after_space of
                [] \<Rightarrow> None
              | q # after_quote \<Rightarrow>
                  if \<not> is_quote q then None
                  else
                    (case split_on_quote_gt after_quote of
                       None \<Rightarrow> None
                     | Some (title, after_title) \<Rightarrow>
                         (case split_on ''</report>'' after_title of
                            None \<Rightarrow> None
                          | Some (body, after) \<Rightarrow> Some (title, body)))))"

fun report_search :: "string \<Rightarrow> (string \<times> string) option" where
  "report_search [] = None"
| "report_search (c # cs) =
     (case report_match_here (c # cs) of
        Some groups \<Rightarrow> Some groups
      | None \<Rightarrow> report_search cs)"

text \<open>
  The tool as the registry sees it. Its \<open>execute\<close> reads the clock at every call; here
  the tool carries the timestamp its calls will see.
\<close>

definition ReportTool :: "string \<Rightarrow> filesystem tool" where
  "ReportTool timestamp =
     \<lparr> name = ''report'',
       description = ''Add a finding to the security report with an incremental ID'',
       can_handle = (\<lambda>message. report_search message \<noteq> None),
       extract_request = (\<lambda>message.
         map_option (\<lambda>(title, content). strip title @ ''|'' @ strip content)
           (report_search message)),
       execute = report_execute timestamp \<rparr>"

section \<open>Command-line driver (zagent/cli.py)\<close>

text \<open>
  What a run of the driver works on: the \<open>ChatState\<close>, the world the tools act on (the
  driver prints to the same terminal), the completion payloads handed to
  \<open>stream_completion\<close> so far, oldest first, and a record of the driver's calls of
  \<open>execute_if_applicable\<close> so far: the message handed over and whether a tool was executed.
\<close>

record 'f machine =
  state :: chat_state
  world :: "'f os"
  posted :: "completion_payload list"
  dispatched :: "(string \<times> bool) list"

text \<open>
  What a run depends on from outside: the JSON decoder, Python's \<open>str\<close> on the values it
  returns, and for the \<open>k\<close>-th completion request (counting from 0) what the transport
  does with it and what the wall clock shows when its payload is built.
\<close>

record env =
  json_loads :: "string \<Rightarrow> loads_result"
  py_str :: "json \<Rightarrow> string"
  net :: "nat \<Rightarrow> http_exchange"
  clock :: "nat \<Rightarrow> wall_clock"

definition GRAY :: string where
  "GRAY = CHR 0x1B # ''[90m''"

definition RESET :: string where
  "RESET = CHR 0x1B # ''[0m''"

definition print_thinking :: "string \<Rightarrow> string \<Rightarrow> 'f os \<Rightarrow> 'f os" where
  "print_thinking delta color w =
     (if color = ''gray'' then print_out (GRAY @ delta @ RESET) w else print_out delta w)"

text \<open>
  The text \<open>print\<close> and an f-string make of a value: a \<open>str\<close> is printed as it is, any
  other value as Python's \<open>str\<close> renders it.
\<close>

definition str_json :: "(json \<Rightarrow> string) \<Rightarrow> json \<Rightarrow> string" where
  "str_json str v = (case v of JString s \<Rightarrow> s | _ \<Rightarrow> str v)"

text \<open>
  The body of the \<open>for event in ...\<close> loop of \<open>_stream_current_turn\<close>. \<open>get\<close> exists on
  dictionaries only: on any other value the call raises \<open>AttributeError\<close>. Appending a
  delta that is not a \<open>str\<close> to \<open>current_assistant_content\<close> raises \<open>TypeError\<close>. Both
  happen before the pass has changed anything.
\<close>

definition handle_event :: "(json \<Rightarrow> string) \<Rightarrow> 'f machine \<Rightarrow> json \<Rightarrow> py_error + 'f machine" where
  "handle_event str m event =
     (case event of
        JObject ev \<Rightarrow>
          if dict_get ev ''type'' JNull \<noteq> JString ''chat:completion'' then Inr m
          else
            (case dict_get ev ''data'' (JObject Map.empty) of
               JObject data \<Rightarrow>
                 let delta = dict_get data ''delta_content'' JNull
                 in if \<not> json_truthy delta then Inr m
                    else
                      let ph = dict_get data ''phase'' (JString ''answer'');
                          finish = (\<lambda>m1.
                            if dict_get data ''phase'' JNull = JString ''done''
                               \<or> dict_get data ''done'' JNull = JBool True
                            then m1\<lparr> state := finish_turn (state m1) \<rparr>
                            else m1)
                      in if ph = JString ''thinking'' \<and> runtime_show_thinking (state m) then
                           Inr (finish
                                  (m\<lparr> world :=
                                       print_thinking (str_json str delta)
                                         (runtime_thinking_color (state m)) (world m) \<rparr>))
                         else
                           (case delta of
                              JString d \<Rightarrow>
                                Inr (finish
                                       (m\<lparr> state := apply_assistant_delta (state m) d,
                                          world := print_out d (world m) \<rparr>))
                            | _ \<Rightarrow> Inl TypeError)
             | _ \<Rightarrow> Inl AttributeError)
      | _ \<Rightarrow> Inl AttributeError)"

text \<open>
  The \<open>for\<close> loop over the events: an exception raised in a pass leaves the loop, with
  the machine as the passes before it left it.
\<close>

fun handle_events ::
  "(json \<Rightarrow> string) \<Rightarrow> 'f machine \<Rightarrow> json list \<Rightarrow> py_error option \<times> 'f machine" where
  "handle_events str m [] = (None, m)"
| "handle_events str m (event # rest) =
     (case handle_event str m event of
        Inl err \<Rightarrow> (Some err, m)
      | Inr m1 \<Rightarrow> handle_events str m1 rest)"

text \<open>
  \<open>_stream_current_turn\<close>. The result is the exception that left the function, if any,
  and the machine as the function left it. An exception of the generator arrives when the
  events it yielded before have been handled.
\<close>

definition stream_current_turn ::
  "env \<Rightarrow> 'f machine \<Rightarrow> string \<Rightarrow> py_error option \<times> 'f machine" where
  "stream_current_turn e m prompt =
     (let k = length (posted m)
      in case build_completion_payload (clock e k) (state m) prompt of
           Inl err \<Rightarrow> (Some err, m)
         | Inr completion_payload \<Rightarrow>
             let m1 = m\<lparr> posted := posted m @ [completion_payload] \<rparr>;
                 (events, raised) = stream_completion (json_loads e) (net e k)
             in case handle_events (py_str e) m1 events of
                  (Some err, m2) \<Rightarrow> (Some err, m2)
                | (None, m2) \<Rightarrow>
                    (case raised of
                       Some err \<Rightarrow> (Some err, m2)
                     | None \<Rightarrow>
                         let m3 = m2\<lparr> state := finish_turn (state m2) \<rparr>
                         in (None, m3\<lparr> world := print_out NL (world m3) \<rparr>)))"

definition run_turn :: "env \<Rightarrow> 'f machine \<Rightarrow> string \<Rightarrow> py_error option \<times> 'f machine" where
  "run_turn e m prompt =
     (let (ids, s') = begin_turn (state m) prompt
      in stream_current_turn e (m\<lparr> state := s' \<rparr>) prompt)"

text \<open>
  The call \<open>registry.execute_if_applicable(state.current_assistant_content)\<close> of the tool
  loops, entered in the record of such calls.
\<close>

definition dispatch ::
  "'f tool_registry \<Rightarrow> 'f machine \<Rightarrow> (bool \<times> string option) \<times> 'f machine" where
  "dispatch registry m =
     (let message = current_assistant_content (state m);
          ((executed, result), w') = execute_if_applicable registry message (world m)
      in ((executed, result),
          m\<lparr> world := w', dispatched := dispatched m @ [(message, executed)] \<rparr>))"

text \<open>
  The loop \<open>for _ in range(max_iterations)\<close> of \<open>_run_turn_with_tools\<close>, over the values
  of the range that are still to come. \<open>execute_if_applicable\<close> returns a result text
  whenever it reports an execution, so the branch for \<open>(True, None)\<close> is never taken.
\<close>

fun tool_iterations ::
  "env \<Rightarrow> 'f tool_registry \<Rightarrow> nat list \<Rightarrow> 'f machine \<Rightarrow> py_error option \<times> 'f machine" where
  "tool_iterations e registry [] m = (None, m)"
| "tool_iterations e registry (i # rest) m =
     (let ((executed, result), m1) = dispatch registry m
      in if \<not> executed then (None, m1)
         else
           (case result of
              None \<Rightarrow> (None, m1)
            | Some text \<Rightarrow>
                (case run_turn e m1 text of
                   (Some err, m2) \<Rightarrow> (Some err, m2)
                 | (None, m2) \<Rightarrow> tool_iterations e registry rest m2)))"

definition py_range :: "int \<Rightarrow> nat list" where
  "py_range n = [0..<nat n]"

definition run_turn_with_tools ::
  "env \<Rightarrow> 'f tool_registry \<Rightarrow> 'f machine \<Rightarrow> string \<Rightarrow> int
     \<Rightarrow> py_error option \<times> 'f machine" where
  "run_turn_with_tools e registry m prompt max_iterations =
     (case run_turn e m prompt of
        (Some err, m1) \<Rightarrow> (Some err, m1)
      | (None, m1) \<Rightarrow> tool_iterations e registry (py_range max_iterations) m1)"

text \<open>
  The line that announces an iteration in \<open>run\<close>; formatting either number can fail.
\<close>

definition iteration_line :: "nat \<Rightarrow> int \<Rightarrow> py_error + string" where
  "iteration_line i max_iterations =
     (case py_str_int (int i + 1) of
        Inl err \<Rightarrow> Inl err
      | Inr number \<Rightarrow>
          (case py_str_int max_iterations of
             Inl err \<Rightarrow> Inl err
           | Inr of_total \<Rightarrow>
               Inr (NL @ GRAY @ ''[iteration '' @ number @ ''/'' @ of_total @ '']'' @ RESET @ NL)))"

text \<open>
  The tool loop as \<open>run\<close> writes it out, twice (after the first response and after each
  later prompt): the same loop, with a line announcing each iteration.
\<close>

fun run_tool_loop ::
  "env \<Rightarrow> 'f tool_registry \<Rightarrow> int \<Rightarrow> nat list \<Rightarrow> 'f machine
     \<Rightarrow> py_error option \<times> 'f machine" where
  "run_tool_loop e registry max_iterations [] m = (None, m)"
| "run_tool_loop e registry max_iterations (i # rest) m =
     (let ((executed, result), m1) = dispatch registry m
      in if \<not> executed then (None, m1)
         else
           (case result of
              None \<Rightarrow> (None, m1)
            | Some text \<Rightarrow>
                (case iteration_line i max_iterations of
                   Inl err \<Rightarrow> (Some err, m1)
                 | Inr line \<Rightarrow>
                     (case run_turn e (m1\<lparr> world := print_out line (world m1) \<rparr>) text of
                        (Some err, m2) \<Rightarrow> (Some err, m2)
                      | (None, m2) \<Rightarrow> run_tool_loop e registry max_iterations rest m2))))"

text \<open>
  One pass of \<open>run\<close>'s conversation loop for a prompt that is neither empty nor a quit
  word: the turn and its tool loop inside \<open>try\<close>, and the handler
  \<open>except KeyboardInterrupt\<close>, which prints a line and goes on to the next prompt. Every
  other exception leaves the loop, and \<open>run\<close> with it.
\<close>

definition run_prompt_body ::
  "env \<Rightarrow> 'f tool_registry \<Rightarrow> int \<Rightarrow> 'f machine \<Rightarrow> string \<Rightarrow> py_error option \<times> 'f machine" where
  "run_prompt_body e registry max_iterations m prompt =
     (case run_turn e m prompt of
        (Some err, m1) \<Rightarrow> (Some err, m1)
      | (None, m1) \<Rightarrow> run_tool_loop e registry max_iterations (py_range max_iterations) m1)"

definition run_prompt ::
  "env \<Rightarrow> 'f tool_registry \<Rightarrow> int \<Rightarrow> 'f machine \<Rightarrow> string \<Rightarrow> py_error option \<times> 'f machine" where
  "run_prompt e registry max_iterations m prompt =
     (let (raised, m1) = run_prompt_body e registry max_iterations m prompt
      in if raised = Some KeyboardInterrupt
         then (None, m1\<lparr> world := print_out (NL @ ''[stop] interrupted by user'' @ NL) (world m1) \<rparr>)
         else (raised, m1))"

section \<open>Request signature (zagent/core/client.py)\<close>

text \<open>
  The signature depends on code points beyond 255, so here a Python \<open>str\<close> is the list of
  its code points and \<open>bytes\<close> is a list of 8-bit words. \<open>to_ustr\<close> reads a \<^typ>\<open>string\<close>
  of this development as such a list.
\<close>

type_synonym ustr = "nat list"
type_synonym byte = "8 word"

definition to_ustr :: "string \<Rightarrow> ustr" where
  "to_ustr s = map of_char s"

text \<open>
  \<open>str.encode("utf-8")\<close>, one code point at a time. The surrogates U+D800 to U+DFFF
  cannot be encoded (\<open>UnicodeEncodeError\<close>); numbers from \<open>0x110000\<close> on are the code point
  of no character and get the same answer.
\<close>

definition utf8_encode_cp :: "nat \<Rightarrow> py_error + byte list" where
  "utf8_encode_cp c =
     (if c < 0x80 then Inr [of_nat c]
      else if c < 0x800 then Inr [of_nat (0xC0 + c div 64), of_nat (0x80 + c mod 64)]
      else if 0xD800 \<le> c \<and> c < 0xE000 then Inl UnicodeEncodeError
      else if c < 0x10000 then
        Inr [of_nat (0xE0 + c div 4096), of_nat (0x80 + c div 64 mod 64),
             of_nat (0x80 + c mod 64)]
      else if c < 0x110000 then
        Inr [of_nat (0xF0 + c div 262144), of_nat (0x80 + c div 4096 mod 64),
             of_nat (0x80 + c div 64 mod 64), of_nat (0x80 + c mod 64)]
      else Inl UnicodeEncodeError)"

fun utf8_encode :: "ustr \<Rightarrow> py_error + byte list" where
  "utf8_encode [] = Inr []"
| "utf8_encode (c # cs) =
     (case utf8_encode_cp c of
        Inl err \<Rightarrow> Inl err
      | Inr bs \<Rightarrow>
          (case utf8_encode cs of
             Inl err \<Rightarrow> Inl err
           | Inr rest \<Rightarrow> Inr (bs @ rest)))"

text \<open>\<open>bytes.decode("latin1")\<close>: every byte is the code point of that number.\<close>

definition latin1_decode :: "byte list \<Rightarrow> ustr" where
  "latin1_decode bs = map unat bs"

text \<open>\<open>str.encode("latin1")\<close>: fails on a code point above 255.\<close>

fun latin1_encode :: "ustr \<Rightarrow> py_error + byte list" where
  "latin1_encode [] = Inr []"
| "latin1_encode (c # cs) =
     (if c < 256 then
        (case latin1_encode cs of
           Inl err \<Rightarrow> Inl err
         | Inr rest \<Rightarrow> Inr (of_nat c # rest))
      else Inl UnicodeEncodeError)"

definition b64_char :: "nat \<Rightarrow> char" where
  "b64_char n =
     ''ABCDEFGHIJKLMNOPQRSTUVWXYZabcdefghijklmnopqrstuvwxyz0123456789+/'' ! n"

text \<open>\<open>base64.b64encode(bs).decode()\<close>.\<close>

fun b64encode :: "byte list \<Rightarrow> string" where
  "b64encode [] = []"
| "b64encode [a] =
     (let n = unat a * 65536
      in [b64_char (n div 262144), b64_char (n div 4096 mod 64), CHR ''='', CHR ''=''])"
| "b64encode [a, b] =
     (let n = unat a * 65536 + unat b * 256
      in [b64_char (n div 262144), b64_char (n div 4096 mod 64),
          b64_char (n div 64 mod 64), CHR ''=''])"
| "b64encode (a # b # c # rest) =
     (let n = unat a * 65536 + unat b * 256 + unat c
      in [b64_char (n div 262144), b64_char (n div 4096 mod 64),
          b64_char (n div 64 mod 64), b64_char (n mod 64)] @ b64encode rest)"

definition js_like_base64 :: "ustr \<Rightarrow> py_error + string" where
  "js_like_base64 text =
     (case utf8_encode text of
        Inl err \<Rightarrow> Inl err
      | Inr utf8_bytes \<Rightarrow>
          let latin1_str = latin1_decode utf8_bytes
          in (case latin1_encode latin1_str of
                Inl err \<Rightarrow> Inl err
              | Inr bs \<Rightarrow> Inr (b64encode bs)))"

text \<open>
  Following the specification's words, for comparison with \<open>js_like_base64\<close>: the
  "naive UTF-8-aware base64 of the action string", that is the base64 text of the
  string's UTF-8 bytes.
\<close>

definition naive_utf8_base64 :: "ustr \<Rightarrow> py_error + string" where
  "naive_utf8_base64 text =
     (case utf8_encode text of
        Inl err \<Rightarrow> Inl err
      | Inr utf8_bytes \<Rightarrow> Inr (b64encode utf8_bytes))"





definition signature_message :: "ustr \<Rightarrow> ustr \<Rightarrow> int \<Rightarrow> py_error + ustr" where
  "signature_message sorted_payload action timestamp_ms =
     (case js_like_base64 action of
        Inl err \<Rightarrow> Inl err
      | Inr b64 \<Rightarrow>
          Inr (sorted_payload @ to_ustr ''|'' @ to_ustr b64 @ to_ustr ''|''
                 @ to_ustr (str_int timestamp_ms)))"




section \<open>What an event adds to the answer\<close>

text \<open>
  The text that a pass of the event loop appends to \<open>current_assistant_content\<close> when it
  raises nothing, given the state's \<open>runtime_show_thinking\<close>: the delta of a
  \<open>chat:completion\<close> event whose delta is a text, unless the phase is \<open>thinking\<close> and
  thinking is shown.
\<close>

definition delta_appended :: "bool \<Rightarrow> json \<Rightarrow> string" where
  "delta_appended show_thinking event =
     (case event of
        JObject ev \<Rightarrow>
          if ev ''type'' \<noteq> Some (JString ''chat:completion'') then []
          else
            (case ev ''data'' of
               Some (JObject data) \<Rightarrow>
                 (case data ''delta_content'' of
                    Some (JString delta) \<Rightarrow>
                      if data ''phase'' = Some (JString ''thinking'') \<and> show_thinking then []
                      else delta
                  | _ \<Rightarrow> [])
             | _ \<Rightarrow> [])
      | _ \<Rightarrow> [])"

text \<open>
  The frames as the protocol has them: a frame is an object; when it is a
  \<open>chat:completion\<close> event that has \<open>data\<close>, the data is an object, and a
  \<open>delta_content\<close> in it is a text or \<open>null\<close>.
\<close>

definition protocol_frame :: "json \<Rightarrow> bool" where
  "protocol_frame event =
     (case event of
        JObject ev \<Rightarrow>
          if ev ''type'' \<noteq> Some (JString ''chat:completion'') then True
          else
            (case ev ''data'' of
               None \<Rightarrow> True
             | Some (JObject data) \<Rightarrow>
                 (case data ''delta_content'' of
                    None \<Rightarrow> True
                  | Some JNull \<Rightarrow> True
                  | Some (JString delta) \<Rightarrow> True
                  | _ \<Rightarrow> False)
             | _ \<Rightarrow> False)
      | _ \<Rightarrow> False)"

text \<open>
  An exchange after which the turn goes on undisturbed: a response with a status outside
  400 to 599 whose reading no interrupt ends and whose events are frames of the protocol.
\<close>

definition quiet_exchange :: "(string \<Rightarrow> loads_result) \<Rightarrow> http_exchange \<Rightarrow> bool" where
  "quiet_exchange decoder x =
     (case x of
        ConnectionFailed \<Rightarrow> False
      | Response status lines ending \<Rightarrow>
          \<not> (400 \<le> status \<and> status < 600) \<and> ending \<noteq> UserInterrupt
          \<and> list_all protocol_frame (fst (iter_body decoder lines ending)))"

section \<open>Concrete runs\<close>

text \<open>
  Data for running the model on concrete inputs: a decoder that knows a handful of
  frames, servers that answer as scripted, and tools that handle every message.
\<close>

text \<open>An identifier factory for concrete runs: \<open>msg-0\<close>, \<open>msg-1\<close>, ...\<close>

definition demo_uuids :: "nat \<Rightarrow> string" where
  "demo_uuids n = ''msg-'' @ str_nat n"

definition demo_clock :: wall_clock where
  "demo_clock =
     \<lparr> now_datetime = ''2026-01-05 10:00:00'', now_date = ''2026-01-05'',
       now_time = ''10:00:00'', now_weekday = ''Monday'' \<rparr>"

definition completion_event :: "(string \<times> json) list \<Rightarrow> json" where
  "completion_event kvs =
     JObject [''type'' \<mapsto> JString ''chat:completion'', ''data'' \<mapsto> JObject (map_of kvs)]"

definition demo_frames :: "(string \<times> json) list" where
  \<open>demo_frames =
     [(''{"type":"chat:completion","data":{"delta_content":"Hel","phase":"answer"}}'',
         completion_event [(''delta_content'', JString ''Hel''), (''phase'', JString ''answer'')]),
      (''{"type":"chat:completion","data":{"delta_content":"lo"}}'',
         completion_event [(''delta_content'', JString ''lo'')]),
      (''{"type":"chat:completion","data":{"delta_content":"!","phase":"answer"}}'',
         completion_event [(''delta_content'', JString ''!''), (''phase'', JString ''answer'')]),
      (''{"type":"chat:completion","data":{"delta_content":"hmm","phase":"thinking"}}'',
         completion_event [(''delta_content'', JString ''hmm''), (''phase'', JString ''thinking'')]),
      (''{"type":"chat:completion","data":{"delta_content":"bye","phase":"done"}}'',
         completion_event [(''delta_content'', JString ''bye''), (''phase'', JString ''done'')]),
      (''{"type":"chat:completion","data":{"phase":"done","done":true}}'',
         completion_event [(''phase'', JString ''done''), (''done'', JBool True)]),
      (''{"type":"chat:completion","data":null}'',
         JObject [''type'' \<mapsto> JString ''chat:completion'', ''data'' \<mapsto> JNull]),
      (''{"type":"chat:completion","data":{"delta_content":7}}'',
         completion_event [(''delta_content'', JInt 7)]),
      (''null'', JNull)]\<close>

text \<open>
  The decoder of the runs: it knows the frames above, refuses a number of more than 4300
  digits the way \<open>json.loads\<close> does, with the \<open>ValueError\<close> of the conversion, and takes
  every other text for malformed.
\<close>

definition demo_json_loads :: "string \<Rightarrow> loads_result" where
  "demo_json_loads s =
     (if MAX_STR_DIGITS < length s \<and> list_all is_digit s \<and> hd s \<noteq> CHR ''0''
      then OtherException
      else (case map_of demo_frames s of Some v \<Rightarrow> Loaded v | None \<Rightarrow> JSONDecodeError))"

text \<open>Python's \<open>str\<close> on the values other than texts that the runs could print.\<close>

definition demo_str :: "json \<Rightarrow> string" where
  "demo_str v =
     (case v of
        JNull \<Rightarrow> ''None''
      | JBool b \<Rightarrow> (if b then ''True'' else ''False'')
      | JInt i \<Rightarrow> str_int i
      | JString s \<Rightarrow> s
      | _ \<Rightarrow> [])"

text \<open>A server that gives the \<open>k\<close>-th request the \<open>k\<close>-th exchange of a list, and the last
  of them to every later request.\<close>

definition scripted_env :: "http_exchange \<Rightarrow> http_exchange list \<Rightarrow> env" where
  "scripted_env x xs =
     \<lparr> json_loads = demo_json_loads, py_str = demo_str,
       net = (\<lambda>k. if k < length xs then xs ! k else x),
       clock = (\<lambda>k. demo_clock) \<rparr>"

definition demo_env :: "raw_line list \<Rightarrow> body_end \<Rightarrow> env" where
  "demo_env lines ending = scripted_env (Response 200 lines ending) []"

definition failing_env :: "http_exchange \<Rightarrow> env" where
  "failing_env x = scripted_env x []"

definition demo_machine :: "'f \<Rightarrow> 'f machine" where
  "demo_machine files =
     \<lparr> state = (ChatState demo_uuids)\<lparr> chat_id := Some ''c1'' \<rparr>,
       world = \<lparr> stdout = [], fs = files \<rparr>,
       posted = [], dispatched = [] \<rparr>"

text \<open>The machine of a run after \<open>begin_turn\<close>, with the identifiers of the turn set.\<close>

definition begun_machine :: "'f \<Rightarrow> 'f machine" where
  "begun_machine files =
     (demo_machine files)\<lparr> state := snd (begin_turn (state (demo_machine files)) ''hi'') \<rparr>"

definition hello_lines :: "raw_line list" where
  \<open>hello_lines =
     [Str ''data: {"type":"chat:completion","data":{"delta_content":"Hel","phase":"answer"}}'',
      Str [],
      Str ''data: {"type":"chat:completion","data":{"delta_content":"lo"}}'',
      Str '': keep-alive'',
      Str ''data: {"type":"chat:completion","data":{"delta_content":"!","phase":"answer"}}'']\<close>


text \<open>A tool that handles every message and counts its executions in the world.\<close>

definition counting_tool :: "nat tool" where
  "counting_tool =
     \<lparr> name = ''count'',
       description = ''Counts its executions'',
       can_handle = (\<lambda>message. True),
       extract_request = (\<lambda>message. Some ''again''),
       execute = (\<lambda>request w. (''go on'', w\<lparr> fs := fs w + 1 \<rparr>)) \<rparr>"

section \<open>Properties of the conversation state\<close>

lemma truthy_iff: "truthy x \<longleftrightarrow> (\<exists>v. x = Some v \<and> v \<noteq> [])"
  by (cases x) auto

lemma begin_turn_fields:
  "chat_id (snd (begin_turn s p)) = chat_id s"
  "uuid_factory (snd (begin_turn s p)) = uuid_factory s"
  "uuid_calls (snd (begin_turn s p)) = uuid_calls s + 2"
  "current_user_message_id (snd (begin_turn s p)) = Some (uuid_factory s (uuid_calls s))"
  "current_assistant_message_id (snd (begin_turn s p)) = Some (uuid_factory s (uuid_calls s + 1))"
  "current_user_message_parent_id (snd (begin_turn s p)) = current_user_message_parent_id s"
  "current_assistant_content (snd (begin_turn s p)) = []"
  "runtime_show_thinking (snd (begin_turn s p)) = runtime_show_thinking s"
  "runtime_thinking_color (snd (begin_turn s p)) = runtime_thinking_color s"
  by (simp_all add: begin_turn_def Let_def)

text \<open>
  C10 (\<open>finish_turn\<close> is idempotent): for every state, calling \<open>finish_turn\<close> twice with
  nothing in between leaves exactly the state that one call leaves. The state is the only
  thing \<open>finish_turn\<close> touches, so one and two calls cannot be told apart.
\<close>

theorem finish_turn_idempotent: "finish_turn (finish_turn s) = finish_turn s"
  by (simp add: finish_turn_def)

text \<open>
  C6 (precondition of the completion payload): without a conversation id, and likewise
  without the current user and assistant message ids that \<open>begin_turn\<close> sets, building the
  completion payload fails with the \<open>RuntimeError\<close> of that precondition; an id that is
  the empty string counts as missing. With all three present the payload is built and
  carries exactly the state's current assistant message id, current user message id and
  parent link (and the conversation id). In particular a fresh \<open>ChatState\<close>, on which
  \<open>begin_turn\<close> has not been called, gives the error whatever its conversation id; and
  after \<open>begin_turn\<close>, with a conversation id and identifiers that are not empty, the
  payload carries the two identifiers just allocated and the parent link of the state.
\<close>

theorem build_completion_payload_contract:
  "(\<not> truthy (chat_id s) \<longrightarrow>
      build_completion_payload now s prompt =
        Inl (RuntimeError ''chat_id is required before completion''))
   \<and> (truthy (chat_id s) \<and>
        (\<not> truthy (current_user_message_id s) \<or> \<not> truthy (current_assistant_message_id s)) \<longrightarrow>
      build_completion_payload now s prompt =
        Inl (RuntimeError ''begin_turn must be called before build_completion_payload''))
   \<and> (truthy (chat_id s) \<and> truthy (current_user_message_id s) \<and>
        truthy (current_assistant_message_id s) \<longrightarrow>
      (\<exists>pl. build_completion_payload now s prompt = Inr pl
         \<and> Some (p_id pl) = current_assistant_message_id s
         \<and> Some (p_current_user_message_id pl) = current_user_message_id s
         \<and> p_current_user_message_parent_id pl = current_user_message_parent_id s
         \<and> Some (p_chat_id pl) = chat_id s))
   \<and> (\<exists>msg. build_completion_payload now ((ChatState f)\<lparr> chat_id := c \<rparr>) prompt
              = Inl (RuntimeError msg))
   \<and> (truthy (chat_id s) \<and> uuid_factory s (uuid_calls s) \<noteq> []
        \<and> uuid_factory s (uuid_calls s + 1) \<noteq> [] \<longrightarrow>
      (\<exists>pl. build_completion_payload now (snd (begin_turn s prompt)) prompt = Inr pl
         \<and> p_id pl = uuid_factory s (uuid_calls s + 1)
         \<and> p_current_user_message_id pl = uuid_factory s (uuid_calls s)
         \<and> p_current_user_message_parent_id pl = current_user_message_parent_id s))"
proof (intro conjI impI)
  show "build_completion_payload now s prompt =
        Inl (RuntimeError ''chat_id is required before completion'')"
    if "\<not> truthy (chat_id s)"
    using that by (simp add: build_completion_payload_def)
  show "build_completion_payload now s prompt =
        Inl (RuntimeError ''begin_turn must be called before build_completion_payload'')"
    if "truthy (chat_id s) \<and>
        (\<not> truthy (current_user_message_id s) \<or> \<not> truthy (current_assistant_message_id s))"
    using that by (auto simp: build_completion_payload_def)
  show "\<exists>pl. build_completion_payload now s prompt = Inr pl
         \<and> Some (p_id pl) = current_assistant_message_id s
         \<and> Some (p_current_user_message_id pl) = current_user_message_id s
         \<and> p_current_user_message_parent_id pl = current_user_message_parent_id s
         \<and> Some (p_chat_id pl) = chat_id s"
    if "truthy (chat_id s) \<and> truthy (current_user_message_id s) \<and>
        truthy (current_assistant_message_id s)"
    using that by (auto simp: build_completion_payload_def truthy_iff)
  show "\<exists>msg. build_completion_payload now ((ChatState f)\<lparr> chat_id := c \<rparr>) prompt
              = Inl (RuntimeError msg)"
    by (simp add: build_completion_payload_def ChatState_def)
  show "\<exists>pl. build_completion_payload now (snd (begin_turn s prompt)) prompt = Inr pl
         \<and> p_id pl = uuid_factory s (uuid_calls s + 1)
         \<and> p_current_user_message_id pl = uuid_factory s (uuid_calls s)
         \<and> p_current_user_message_parent_id pl = current_user_message_parent_id s"
    if "truthy (chat_id s) \<and> uuid_factory s (uuid_calls s) \<noteq> []
        \<and> uuid_factory s (uuid_calls s + 1) \<noteq> []"
    using that by (auto simp: build_completion_payload_def begin_turn_fields truthy_iff)
qed

lemma demo_uuids_0: "demo_uuids 0 = ''msg-0''"
  by (simp add: demo_uuids_def str_nat.simps digit_char_def)

lemma demo_uuids_1: "demo_uuids (Suc 0) = ''msg-1''"
  by (simp add: demo_uuids_def str_nat.simps digit_char_def)

theorem build_completion_payload_contract_witness:
  "build_completion_payload demo_clock (ChatState demo_uuids) ''hi''
     = Inl (RuntimeError ''chat_id is required before completion'')
   \<and> build_completion_payload demo_clock ((ChatState demo_uuids)\<lparr>chat_id := Some ''c1''\<rparr>) ''hi''
     = Inl (RuntimeError ''begin_turn must be called before build_completion_payload'')
   \<and> (\<exists>pl. build_completion_payload demo_clock
               (snd (begin_turn ((ChatState demo_uuids)\<lparr>chat_id := Some ''c1''\<rparr>) ''hi'')) ''hi''
             = Inr pl
          \<and> p_id pl = ''msg-1'' \<and> p_current_user_message_id pl = ''msg-0''
          \<and> p_current_user_message_parent_id pl = None \<and> p_chat_id pl = ''c1'')"
proof -
  let ?s0 = "ChatState demo_uuids"
  let ?s1 = "(ChatState demo_uuids)\<lparr>chat_id := Some ''c1''\<rparr>"
  let ?s2 = "snd (begin_turn ?s1 ''hi'')"
  have "\<not> truthy (chat_id ?s0)"
    by (simp add: ChatState_def)
  with build_completion_payload_contract [of ?s0 demo_clock "''hi''"]
  have a: "build_completion_payload demo_clock ?s0 ''hi''
             = Inl (RuntimeError ''chat_id is required before completion'')"
    by blast
  have "truthy (chat_id ?s1) \<and> \<not> truthy (current_user_message_id ?s1)"
    by (simp add: ChatState_def)
  with build_completion_payload_contract [of ?s1 demo_clock "''hi''"]
  have b: "build_completion_payload demo_clock ?s1 ''hi''
             = Inl (RuntimeError ''begin_turn must be called before build_completion_payload'')"
    by blast
  have s1: "truthy (chat_id ?s1) \<and> uuid_factory ?s1 (uuid_calls ?s1) \<noteq> []
              \<and> uuid_factory ?s1 (uuid_calls ?s1 + 1) \<noteq> []"
    by (simp add: ChatState_def demo_uuids_def)
  have s2: "chat_id ?s2 = Some ''c1''" "current_user_message_id ?s2 = Some ''msg-0''"
    "current_assistant_message_id ?s2 = Some ''msg-1''"
    "current_user_message_parent_id ?s2 = None"
    by (simp_all add: ChatState_def begin_turn_fields demo_uuids_0 demo_uuids_1)
  then have "truthy (chat_id ?s2) \<and> truthy (current_user_message_id ?s2)
               \<and> truthy (current_assistant_message_id ?s2)"
    by simp
  with build_completion_payload_contract [of ?s2 demo_clock "''hi''"] s2
  have c: "\<exists>pl. build_completion_payload demo_clock ?s2 ''hi'' = Inr pl
          \<and> p_id pl = ''msg-1'' \<and> p_current_user_message_id pl = ''msg-0''
          \<and> p_current_user_message_parent_id pl = None \<and> p_chat_id pl = ''c1''"
    by auto
  from build_completion_payload_contract [of ?s1 demo_clock "''hi''"] s1
  have "\<exists>pl. build_completion_payload demo_clock ?s2 ''hi'' = Inr pl
         \<and> p_id pl = uuid_factory ?s1 (uuid_calls ?s1 + 1)"
    by blast
  with a b c show ?thesis by blast
qed

section \<open>Properties of the request signature\<close>

lemma unat_byte_bound: "unat (a :: 8 word) < 256"
  using unsigned_less [of a, where ?'a = nat] by simp

lemma latin1_roundtrip: "latin1_encode (latin1_decode bs) = Inr bs"
  by (induction bs) (auto simp: latin1_decode_def unat_byte_bound)

lemma js_like_base64_eq: "js_like_base64 text = naive_utf8_base64 text"
  by (simp add: js_like_base64_def naive_utf8_base64_def latin1_roundtrip split: sum.splits)

text \<open>
  C5, as amended (the byte reinterpretation in the action encoding): decoding the UTF-8
  bytes as Latin-1 and encoding the result as Latin-1 gives the same bytes back, so for
  every action string, ASCII or not, the encoded action is the base64 text of the
  string's UTF-8 bytes, and the signed message is the one built from that text.
\<close>

theorem js_like_base64_is_utf8_base64:
  "js_like_base64 text = naive_utf8_base64 text
   \<and> signature_message sorted_payload text timestamp_ms =
       (case naive_utf8_base64 text of
          Inl err \<Rightarrow> Inl err
        | Inr b64 \<Rightarrow>
            Inr (sorted_payload @ to_ustr ''|'' @ to_ustr b64 @ to_ustr ''|''
                   @ to_ustr (str_int timestamp_ms)))"
  by (simp add: signature_message_def js_like_base64_eq)

text \<open>
  C5 as stated fails at the one-character action strings U+00E9 and U+4E2D: both
  encodings give the same text.
\<close>

theorem js_like_base64_non_ascii:
  "js_like_base64 [0xE9] = Inr ''w6k='' \<and> naive_utf8_base64 [0xE9] = Inr ''w6k=''
   \<and> js_like_base64 [0x4E2D] = Inr ''5Lit'' \<and> naive_utf8_base64 [0x4E2D] = Inr ''5Lit''"
  by (simp add: js_like_base64_def naive_utf8_base64_def latin1_decode_def utf8_encode_cp_def
        b64_char_def)

subsection \<open>Decimal rendering\<close>

lemma digit_cases: "d < 10 \<Longrightarrow> d \<in> {0, 1, 2, 3, 4, 5, 6, 7, 8, 9 :: nat}"
  by auto

lemma of_char_digit_char: "d < 10 \<Longrightarrow> of_char (digit_char d) = 48 + d"
  using digit_cases [of d] by (auto simp: digit_char_def)


lemma int_of_digits_snoc:
  "int_of_digits (ds @ [c]) = 10 * int_of_digits ds + (of_char c - 48)"
  by (simp add: int_of_digits_def)

lemma int_of_digits_str_nat: "int_of_digits (str_nat n) = n"
proof (induction n rule: str_nat.induct)
  case (1 n)
  show ?case
  proof (cases "n < 10")
    case True
    then show ?thesis
      by (subst str_nat.simps) (simp add: int_of_digits_def of_char_digit_char)
  next
    case False
    with 1 have "int_of_digits (str_nat (n div 10)) = n div 10" by simp
    with False show ?thesis
      by (subst str_nat.simps) (simp add: int_of_digits_snoc of_char_digit_char)
  qed
qed





subsection \<open>UTF-8 encoding\<close>

lemma utf8_encode_cp_error: "utf8_encode_cp c = Inl err \<Longrightarrow> err = UnicodeEncodeError"
  by (auto simp: utf8_encode_cp_def split: if_splits)

lemma utf8_encode_error: "utf8_encode cs = Inl err \<Longrightarrow> err = UnicodeEncodeError"
  by (induction cs) (auto split: sum.splits dest: utf8_encode_cp_error)

lemma latin1_encode_error: "latin1_encode cs = Inl err \<Longrightarrow> err = UnicodeEncodeError"
  by (induction cs) (auto split: sum.splits if_splits)

lemma js_like_base64_error: "js_like_base64 text = Inl err \<Longrightarrow> err = UnicodeEncodeError"
  by (auto simp: js_like_base64_def split: sum.splits dest: utf8_encode_error latin1_encode_error)

lemma signature_message_error:
  "signature_message p a t = Inl err \<Longrightarrow> err = UnicodeEncodeError"
  by (auto simp: signature_message_def split: sum.splits dest: js_like_base64_error)











section \<open>Properties of the tools\<close>

subsection \<open>Dispatch\<close>







subsection \<open>Dispatch on concrete messages\<close>







subsection \<open>Report identifiers\<close>

lemma list_max_Max: "xs \<noteq> [] \<Longrightarrow> list_max xs = Max (set xs)"
proof (cases xs)
  case Nil
  assume "xs \<noteq> []"
  with Nil show ?thesis by simp
next
  case (Cons x rest)
  then show ?thesis using Max.set_eq_fold [of x rest] by simp
qed

lemma int_of_digits_zeros: "int_of_digits (replicate k (CHR ''0'') @ ds) = int_of_digits ds"
proof -
  have "foldl (\<lambda>acc c. 10 * acc + (of_char c - 48)) 0 (replicate k (CHR ''0'')) = (0 :: nat)"
    by (induction k) simp_all
  then show ?thesis by (simp add: int_of_digits_def)
qed

lemma int_of_digits_format_03d: "int_of_digits (format_03d n) = n"
  by (simp add: format_03d_def int_of_digits_zeros int_of_digits_str_nat)

lemma length_format_03d: "3 \<le> length (format_03d n)"
  by (simp add: format_03d_def)

lemma ints_of_short:
  "\<forall>i \<in> set ids. length i \<le> MAX_STR_DIGITS \<Longrightarrow> ints_of ids = Inr (map int_of_digits ids)"
  by (induction ids) (simp_all add: py_int_def)

lemma ints_of_long:
  "List.find (\<lambda>i. MAX_STR_DIGITS < length i) ids = Some i \<Longrightarrow>
   ints_of ids = Inl (str_to_int_error (length i))"
  by (induction ids) (auto simp: py_int_def split: if_splits)

lemma get_next_id_cases:
  "files REPORT_FILE = None \<Longrightarrow> get_next_id files = Inr ''001''"
  "files REPORT_FILE = Some doc \<Longrightarrow> findall_ids doc = [] \<Longrightarrow> get_next_id files = Inr ''001''"
  "files REPORT_FILE = Some doc \<Longrightarrow> findall_ids doc \<noteq> [] \<Longrightarrow>
     \<forall>i \<in> set (findall_ids doc). length i \<le> MAX_STR_DIGITS \<Longrightarrow>
     length (str_nat (Max (int_of_digits ` set (findall_ids doc)) + 1)) \<le> MAX_STR_DIGITS \<Longrightarrow>
     get_next_id files = Inr (format_03d (Max (int_of_digits ` set (findall_ids doc)) + 1))"
  "files REPORT_FILE = Some doc \<Longrightarrow>
     List.find (\<lambda>i. MAX_STR_DIGITS < length i) (findall_ids doc) = Some i \<Longrightarrow>
     get_next_id files = Inl (str_to_int_error (length i))"
     apply (simp add: get_next_id_def)
    apply (simp add: get_next_id_def)
   apply (simp add: get_next_id_def Let_def ints_of_short list_max_Max)
  apply (auto simp: get_next_id_def Let_def ints_of_long)
  done

lemma report_execute_file:
  assumes "split_on ''|'' request = Some (title, body)"
  shows "fs w REPORT_FILE = None \<Longrightarrow>
           fs (snd (report_execute ts request w)) REPORT_FILE
             = Some (REPORT_HEADER @ report_entry ''001'' title ts body)"
    and "fs w REPORT_FILE = Some old \<Longrightarrow> get_next_id (fs w) = Inr next_id \<Longrightarrow>
           fs (snd (report_execute ts request w)) REPORT_FILE
             = Some (old @ report_entry next_id title ts body)"
    and "get_next_id (fs w) = Inl err \<Longrightarrow>
           report_execute ts request w = (report_failed title (exception_text err), w)"
  using assms
  by (simp_all add: report_execute_def Let_def print_out_def get_next_id_cases(1))

lemma findall_ids_skip: "CHR ''#'' \<notin> set s \<Longrightarrow> findall_ids (s @ rest) = findall_ids rest"
  by (induction s) auto

lemma findall_ids_no_hash: "CHR ''#'' \<notin> set s \<Longrightarrow> findall_ids s = []"
  using findall_ids_skip [of s "[]"] by simp

lemma findall_ids_header: "findall_ids (REPORT_HEADER @ rest) = findall_ids rest"
proof -
  have "findall_ids (REPORT_HEADER @ rest)
          = findall_ids (('' ZAgent Security Report'' @ NL @ NL) @ rest)"
    by (simp add: REPORT_HEADER_def NL_def)
  also have "\<dots> = findall_ids rest"
    by (rule findall_ids_skip) (simp add: NL_def)
  finally show ?thesis .
qed

lemma findall_ids_entry:
  "findall_ids (report_entry ''001'' title ts body)
     = ''001'' # findall_ids (NL @ ''**Title**: '' @ title @ NL @ ''**Date**: '' @ ts @ NL @ NL
                               @ body @ NL)"
proof -
  let ?tail = "NL @ ''**Title**: '' @ title @ NL @ ''**Date**: '' @ ts @ NL @ NL @ body @ NL"
  have "findall_ids (report_entry ''001'' title ts body)
          = findall_ids ((NL @ ''---'' @ NL) @ (''### ID: 001'' @ ?tail))"
    by (simp add: report_entry_def)
  also have "\<dots> = findall_ids (''### ID: 001'' @ ?tail)"
    by (rule findall_ids_skip) (simp add: NL_def)
  also have "\<dots> = ''001'' # findall_ids ?tail"
    by (simp add: NL_def is_digit_def)
  finally show ?thesis .
qed

lemma findall_ids_entry_no_hash:
  assumes "CHR ''#'' \<notin> set title \<union> set ts \<union> set body"
  shows "findall_ids (report_entry ''001'' title ts body) = [''001'']"
proof -
  have "findall_ids (NL @ ''**Title**: '' @ title @ NL @ ''**Date**: '' @ ts @ NL @ NL
                      @ body @ NL) = []"
    using assms by (intro findall_ids_no_hash) (simp add: NL_def)
  then show ?thesis by (simp only: findall_ids_entry)
qed

lemma format_03d_2: "format_03d 2 = ''002''"
  by (simp add: format_03d_def str_nat.simps digit_char_def numeral_2_eq_2)

lemma format_03d_Suc_Suc_0: "format_03d (Suc (Suc 0)) = ''002''"
  using format_03d_2 by (simp add: numeral_2_eq_2)

lemma int_of_digits_001: "int_of_digits ''001'' = Suc 0"
  by (simp add: int_of_digits_def)

lemma str_nat_Suc_Suc_0: "str_nat (Suc (Suc 0)) = ''2''"
  by (simp add: str_nat.simps digit_char_def)

lemma second_report_id:
  assumes "split_on ''|'' request = Some (title, body)" and "fs w REPORT_FILE = None"
    and "findall_ids (report_entry ''001'' title ts body) = [''001'']"
  shows "get_next_id (fs (snd (report_execute ts request w))) = Inr ''002''"
proof -
  have "fs (snd (report_execute ts request w)) REPORT_FILE
          = Some (REPORT_HEADER @ report_entry ''001'' title ts body)"
    by (rule report_execute_file(1) [OF assms(1,2)])
  then show ?thesis
    by (simp add: get_next_id_def Let_def findall_ids_header assms(3) py_int_def
          MAX_STR_DIGITS_def int_of_digits_001 format_03d_Suc_Suc_0 str_nat_Suc_Suc_0)
qed

lemma findall_ids_digits:
  assumes "ds \<noteq> []" and "list_all is_digit ds"
  shows "findall_ids (''### ID: '' @ ds) = [ds]"
proof -
  from assms(2) have t: "takeWhile is_digit ds = ds" and d: "dropWhile is_digit ds = []"
    by (simp_all add: list_all_iff)
  show ?thesis
    using assms(1) by (simp add: t d)
qed


text \<open>
  C9, as amended (report identifiers). The next identifier is \<open>001\<close> when the report
  document does not exist or holds no entry identifier. Otherwise, when no identifier of
  the document has more than 4300 digits (and the successor of the highest has no more
  either), it is the highest value among the \<open>### ID:\<close> numbers of the document plus
  one, written in decimal and padded with zeros to at least three digits; when an
  identifier has more than 4300 digits, \<open>int\<close> refuses the first such, no identifier is
  allocated, and the report call returns a failed result and writes and prints nothing.
  The header is written exactly when the document does not exist: a report call then
  creates it as header and entry \<open>001\<close>, and a call on an existing document appends the
  entry and nothing else. After a first call on a missing document whose entry holds no
  \<open>### ID:\<close> number but its own, the next identifier is \<open>002\<close>.
\<close>

theorem report_id_allocation:
  "(files REPORT_FILE = None \<longrightarrow> get_next_id files = Inr ''001'')
   \<and> (files REPORT_FILE = Some doc \<and> findall_ids doc = [] \<longrightarrow> get_next_id files = Inr ''001'')
   \<and> (files REPORT_FILE = Some doc \<and> findall_ids doc \<noteq> []
      \<and> (\<forall>i \<in> set (findall_ids doc). length i \<le> MAX_STR_DIGITS)
      \<and> length (str_nat (Max (int_of_digits ` set (findall_ids doc)) + 1)) \<le> MAX_STR_DIGITS \<longrightarrow>
        get_next_id files = Inr (format_03d (Max (int_of_digits ` set (findall_ids doc)) + 1)))
   \<and> (files REPORT_FILE = Some doc
      \<and> List.find (\<lambda>i. MAX_STR_DIGITS < length i) (findall_ids doc) = Some long_id \<longrightarrow>
        get_next_id files = Inl (str_to_int_error (length long_id)))
   \<and> int_of_digits (format_03d n) = n \<and> 3 \<le> length (format_03d n)
   \<and> (split_on ''|'' request = Some (title, body) \<and> fs w REPORT_FILE = None \<longrightarrow>
        fs (snd (report_execute ts request w)) REPORT_FILE
          = Some (REPORT_HEADER @ report_entry ''001'' title ts body))
   \<and> (split_on ''|'' request = Some (title, body) \<and> fs w REPORT_FILE = Some old
      \<and> get_next_id (fs w) = Inr next_id \<longrightarrow>
        fs (snd (report_execute ts request w)) REPORT_FILE
          = Some (old @ report_entry next_id title ts body))
   \<and> (split_on ''|'' request = Some (title, body) \<and> get_next_id (fs w) = Inl err \<longrightarrow>
        report_execute ts request w = (report_failed title (exception_text err), w))
   \<and> (split_on ''|'' request = Some (title, body) \<and> fs w REPORT_FILE = None
      \<and> findall_ids (report_entry ''001'' title ts body) = [''001''] \<longrightarrow>
        get_next_id (fs (snd (report_execute ts request w))) = Inr ''002'')"
proof (intro conjI impI)
  show "get_next_id files = Inr ''001''" if "files REPORT_FILE = None"
    using that by (rule get_next_id_cases(1))
  show "get_next_id files = Inr ''001''" if "files REPORT_FILE = Some doc \<and> findall_ids doc = []"
    using that get_next_id_cases(2) by blast
  show "get_next_id files = Inr (format_03d (Max (int_of_digits ` set (findall_ids doc)) + 1))"
    if "files REPORT_FILE = Some doc \<and> findall_ids doc \<noteq> []
      \<and> (\<forall>i \<in> set (findall_ids doc). length i \<le> MAX_STR_DIGITS)
      \<and> length (str_nat (Max (int_of_digits ` set (findall_ids doc)) + 1)) \<le> MAX_STR_DIGITS"
    using that get_next_id_cases(3) by blast
  show "get_next_id files = Inl (str_to_int_error (length long_id))"
    if "files REPORT_FILE = Some doc
      \<and> List.find (\<lambda>i. MAX_STR_DIGITS < length i) (findall_ids doc) = Some long_id"
    using that get_next_id_cases(4) by blast
  show "int_of_digits (format_03d n) = n"
    by (rule int_of_digits_format_03d)
  show "3 \<le> length (format_03d n)"
    by (rule length_format_03d)
  show "fs (snd (report_execute ts request w)) REPORT_FILE
          = Some (REPORT_HEADER @ report_entry ''001'' title ts body)"
    if "split_on ''|'' request = Some (title, body) \<and> fs w REPORT_FILE = None"
    using that report_execute_file(1) by blast
  show "fs (snd (report_execute ts request w)) REPORT_FILE
          = Some (old @ report_entry next_id title ts body)"
    if "split_on ''|'' request = Some (title, body) \<and> fs w REPORT_FILE = Some old
      \<and> get_next_id (fs w) = Inr next_id"
    using that report_execute_file(2) by blast
  show "report_execute ts request w = (report_failed title (exception_text err), w)"
    if "split_on ''|'' request = Some (title, body) \<and> get_next_id (fs w) = Inl err"
    using that report_execute_file(3) by blast
  show "get_next_id (fs (snd (report_execute ts request w))) = Inr ''002''"
    if "split_on ''|'' request = Some (title, body) \<and> fs w REPORT_FILE = None
      \<and> findall_ids (report_entry ''001'' title ts body) = [''001'']"
    using that second_report_id by blast
qed

lemma report_request: \<open>extract_request (ReportTool ts) ''<report title="X">finding</report>''
    = Some ''X|finding''\<close>
  by (simp add: ReportTool_def report_match_here_def is_space_def is_quote_def strip_def)

lemma report_can_handle: \<open>can_handle (ReportTool ts) ''<report title="X">finding</report>''\<close>
  by (simp add: ReportTool_def report_match_here_def is_space_def is_quote_def)

lemma findall_ids_example:
  "findall_ids ''### ID: 007 and ### ID: 41x ### ID: 9'' = [''007'', ''41'', ''9'']"
  by (simp add: is_digit_def)

lemma format_03d_42: "format_03d 42 = ''042''"
  by (simp add: format_03d_def str_nat.simps digit_char_def)

lemma str_nat_42: "str_nat 42 = ''42''"
  by (simp add: str_nat.simps digit_char_def)

lemma str_nat_4301: "str_nat 4301 = ''4301''"
  by (simp add: str_nat.simps digit_char_def)

lemma nines_digits: "list_all is_digit (replicate n (CHR ''9''))"
  by (simp add: list_all_iff is_digit_def)

lemma find_long_nines:
  "List.find (\<lambda>i. MAX_STR_DIGITS < length i) [replicate 4301 (CHR ''9'')]
     = Some (replicate 4301 (CHR ''9''))"
  by (simp add: MAX_STR_DIGITS_def)

theorem report_id_allocation_witness:
  \<open>get_next_id Map.empty = Inr ''001''
   \<and> fs (snd (report_execute ''2026-01-05 10:00:00'' ''X|finding'' \<lparr> stdout = [], fs = Map.empty \<rparr>))
        REPORT_FILE
       = Some (REPORT_HEADER @ report_entry ''001'' ''X'' ''2026-01-05 10:00:00'' ''finding'')
   \<and> get_next_id
        (fs (snd (report_execute ''2026-01-05 10:00:00'' ''X|finding''
                    \<lparr> stdout = [], fs = Map.empty \<rparr>)))
       = Inr ''002''
   \<and> fs (snd (report_execute ''2026-01-05 10:00:07'' ''Y|more''
                 (snd (report_execute ''2026-01-05 10:00:00'' ''X|finding''
                         \<lparr> stdout = [], fs = Map.empty \<rparr>))))
        REPORT_FILE
       = Some (REPORT_HEADER @ report_entry ''001'' ''X'' ''2026-01-05 10:00:00'' ''finding''
                 @ report_entry ''002'' ''Y'' ''2026-01-05 10:00:07'' ''more'')
   \<and> get_next_id [REPORT_FILE \<mapsto> ''### ID: 007 and ### ID: 41x ### ID: 9''] = Inr ''042''
   \<and> get_next_id [REPORT_FILE \<mapsto> ''notes''] = Inr ''001''
   \<and> get_next_id [REPORT_FILE \<mapsto> ''### ID: '' @ replicate 4301 (CHR ''9'')]
       = Inl (str_to_int_error 4301)
   \<and> report_execute ''2026-01-05 10:00:00'' ''X|finding''
        \<lparr> stdout = [], fs = [REPORT_FILE \<mapsto> ''### ID: '' @ replicate 4301 (CHR ''9'')] \<rparr>
       = (report_failed ''X'' (exception_text (str_to_int_error 4301)),
          \<lparr> stdout = [], fs = [REPORT_FILE \<mapsto> ''### ID: '' @ replicate 4301 (CHR ''9'')] \<rparr>)
   \<and> fst (execute_if_applicable
             (register empty_registry (ReportTool ''2026-01-05 10:00:00'') True)
             ''<report title="X">finding</report>'' \<lparr> stdout = [], fs = Map.empty \<rparr>)
       = (True,
          Some (''TOOL_RESULT report'' @ NL @ ''request: X'' @ NL @ ''success: yes'' @ NL
                  @ ''output:'' @ NL @ ''Finding 001 successfully added to report.md'' @ NL
                  @ ''id: 001'' @ NL @ ''title: X''))\<close>
proof -
  let ?t1 = "''2026-01-05 10:00:00''"
  let ?t2 = "''2026-01-05 10:00:07''"
  let ?w0 = "\<lparr> stdout = [], fs = Map.empty \<rparr> :: filesystem os"
  let ?w1 = "snd (report_execute ?t1 ''X|finding'' ?w0)"
  let ?nines = "replicate 4301 (CHR ''9'')"
  let ?long = "''### ID: '' @ ?nines"
  let ?w9 = "\<lparr> stdout = [], fs = [REPORT_FILE \<mapsto> ?long] \<rparr> :: filesystem os"
  have none: "fs ?w0 REPORT_FILE = None" by simp
  have sp1: "split_on ''|'' ''X|finding'' = Some (''X'', ''finding'')" by simp
  have sp2: "split_on ''|'' ''Y|more'' = Some (''Y'', ''more'')" by simp
  have own: "findall_ids (report_entry ''001'' ''X'' ?t1 ''finding'') = [''001'']"
    by (rule findall_ids_entry_no_hash) simp
  have a: "get_next_id Map.empty = Inr ''001''"
    using report_id_allocation [of Map.empty] by simp
  have b: "fs ?w1 REPORT_FILE = Some (REPORT_HEADER @ report_entry ''001'' ''X'' ?t1 ''finding'')"
    using report_id_allocation [of _ _ _ _ "''X|finding''" "''X''" "''finding''" ?w0 ?t1] sp1 none
    by blast
  have c: "get_next_id (fs ?w1) = Inr ''002''"
    using report_id_allocation [of _ _ _ _ "''X|finding''" "''X''" "''finding''" ?w0 ?t1]
      sp1 none own
    by blast
  have d: "fs (snd (report_execute ?t2 ''Y|more'' ?w1)) REPORT_FILE
       = Some (REPORT_HEADER @ report_entry ''001'' ''X'' ?t1 ''finding''
                 @ report_entry ''002'' ''Y'' ?t2 ''more'')"
    using report_id_allocation
            [of _ _ _ _ "''Y|more''" "''Y''" "''more''" ?w1 ?t2
               "REPORT_HEADER @ report_entry ''001'' ''X'' ?t1 ''finding''" "''002''"]
      sp2 b c
    by simp
  have e: "get_next_id [REPORT_FILE \<mapsto> ''### ID: 007 and ### ID: 41x ### ID: 9''] = Inr ''042''"
  proof -
    let ?doc = "''### ID: 007 and ### ID: 41x ### ID: 9''"
    have m: "int_of_digits ` set (findall_ids ?doc) = {7, 41, 9}"
      by (simp only: findall_ids_example) (simp add: int_of_digits_def)
    have "[REPORT_FILE \<mapsto> ?doc] REPORT_FILE = Some ?doc \<and> findall_ids ?doc \<noteq> []
          \<and> (\<forall>i \<in> set (findall_ids ?doc). length i \<le> MAX_STR_DIGITS)
          \<and> length (str_nat (Max (int_of_digits ` set (findall_ids ?doc)) + 1)) \<le> MAX_STR_DIGITS"
      unfolding m by (simp only: findall_ids_example) (simp add: MAX_STR_DIGITS_def str_nat_42)
    with report_id_allocation [of "[REPORT_FILE \<mapsto> ?doc]" ?doc]
    have "get_next_id [REPORT_FILE \<mapsto> ?doc]
            = Inr (format_03d (Max (int_of_digits ` set (findall_ids ?doc)) + 1))"
      by blast
    also have "Max (int_of_digits ` set (findall_ids ?doc)) + 1 = 42"
      unfolding m by simp
    finally show ?thesis by (simp only: format_03d_42)
  qed
  have g: "get_next_id [REPORT_FILE \<mapsto> ''notes''] = Inr ''001''"
    using report_id_allocation [of "[REPORT_FILE \<mapsto> ''notes'']" "''notes''"]
    by simp
  have ids9: "findall_ids ?long = [?nines]"
    by (rule findall_ids_digits) (simp_all add: nines_digits)
  have h: "get_next_id [REPORT_FILE \<mapsto> ?long] = Inl (str_to_int_error 4301)"
  proof -
    have "[REPORT_FILE \<mapsto> ?long] REPORT_FILE = Some ?long
          \<and> List.find (\<lambda>i. MAX_STR_DIGITS < length i) (findall_ids ?long) = Some ?nines"
      by (simp only: ids9 find_long_nines) simp
    with report_id_allocation [of "[REPORT_FILE \<mapsto> ?long]" ?long ?nines]
    have "get_next_id [REPORT_FILE \<mapsto> ?long] = Inl (str_to_int_error (length ?nines))"
      by blast
    then show ?thesis by simp
  qed
  have i: "report_execute ?t1 ''X|finding'' ?w9
             = (report_failed ''X'' (exception_text (str_to_int_error 4301)), ?w9)"
  proof -
    have "get_next_id (fs ?w9) = Inl (str_to_int_error 4301)"
      using h by simp
    with report_id_allocation [of _ _ _ _ "''X|finding''" "''X''" "''finding''" ?w9 ?t1 _ _
                                  "str_to_int_error 4301"] sp1
    show ?thesis by blast
  qed
  have f: \<open>fst (execute_if_applicable (register empty_registry (ReportTool ?t1) True)
             ''<report title="X">finding</report>'' ?w0)
       = (True,
          Some (''TOOL_RESULT report'' @ NL @ ''request: X'' @ NL @ ''success: yes'' @ NL
                  @ ''output:'' @ NL @ ''Finding 001 successfully added to report.md'' @ NL
                  @ ''id: 001'' @ NL @ ''title: X''))\<close>
  proof -
    have tl: "get_enabled_tools (register empty_registry (ReportTool ?t1) True) = [ReportTool ?t1]"
      by (simp add: get_enabled_tools_def register_def Let_def empty_registry_def ReportTool_def)
    have ex: "execute (ReportTool ?t1) = report_execute ?t1"
      by (simp add: ReportTool_def)
    have run: "fst (report_execute ?t1 ''X|finding'' ?w0)
       = ''TOOL_RESULT report'' @ NL @ ''request: X'' @ NL @ ''success: yes'' @ NL
                  @ ''output:'' @ NL @ ''Finding 001 successfully added to report.md'' @ NL
                  @ ''id: 001'' @ NL @ ''title: X''"
      by (simp add: report_execute_def Let_def a format_result_def REPORT_FILE_def)
    show ?thesis
      by (simp add: execute_if_applicable_def find_tool_for_message_def tl report_can_handle
            report_request ex split_beta run)
  qed
  from a b c d e f g h i show ?thesis by blast
qed

text \<open>
  C9 as stated fails in three ways. For a document that exists and holds no entry
  identifier, the identifier is \<open>001\<close> and the entry is appended to the document without
  the header. In a fresh run whose first finding quotes \<open>### ID: 41\<close>, the first call
  allocates \<open>001\<close> and the second \<open>042\<close>, not \<open>002\<close>. And for a document whose one
  identifier has 4301 digits no identifier is allocated: the conversion raises
  \<open>ValueError\<close>.
\<close>

theorem report_allocation_fails:
  "get_next_id [REPORT_FILE \<mapsto> ''notes''] = Inr ''001''
   \<and> fs (snd (report_execute ''2026-01-05 10:00:00'' ''X|finding''
                 \<lparr> stdout = [], fs = [REPORT_FILE \<mapsto> ''notes''] \<rparr>)) REPORT_FILE
       = Some (''notes'' @ report_entry ''001'' ''X'' ''2026-01-05 10:00:00'' ''finding'')
   \<and> ''notes'' @ report_entry ''001'' ''X'' ''2026-01-05 10:00:00'' ''finding''
       \<noteq> REPORT_HEADER @ report_entry ''001'' ''X'' ''2026-01-05 10:00:00'' ''finding''
   \<and> fs (snd (report_execute ''2026-01-05 10:00:00'' ''X|see ### ID: 41''
                 \<lparr> stdout = [], fs = Map.empty \<rparr>)) REPORT_FILE
       = Some (REPORT_HEADER
                 @ report_entry ''001'' ''X'' ''2026-01-05 10:00:00'' ''see ### ID: 41'')
   \<and> get_next_id
        (fs (snd (report_execute ''2026-01-05 10:00:00'' ''X|see ### ID: 41''
                    \<lparr> stdout = [], fs = Map.empty \<rparr>)))
       = Inr ''042''
   \<and> get_next_id [REPORT_FILE \<mapsto> ''### ID: '' @ replicate 4301 (CHR ''9'')]
       = Inl (ValueError
                (''Exceeds the limit (4300 digits) for integer string conversion: ''
                 @ ''value has 4301 digits; ''
                 @ ''use sys.set_int_max_str_digits() to increase the limit''))"
proof -
  let ?t1 = "''2026-01-05 10:00:00''"
  let ?w0 = "\<lparr> stdout = [], fs = Map.empty \<rparr> :: filesystem os"
  let ?nines = "replicate 4301 (CHR ''9'')"
  have a: "get_next_id [REPORT_FILE \<mapsto> ''notes''] = Inr ''001''"
    by (simp add: get_next_id_def)
  have b: "fs (snd (report_execute ?t1 ''X|finding''
                 \<lparr> stdout = [], fs = [REPORT_FILE \<mapsto> ''notes''] \<rparr>)) REPORT_FILE
       = Some (''notes'' @ report_entry ''001'' ''X'' ?t1 ''finding'')"
    by (simp add: report_execute_def a Let_def print_out_def)
  have c: "''notes'' @ report_entry ''001'' ''X'' ?t1 ''finding''
       \<noteq> REPORT_HEADER @ report_entry ''001'' ''X'' ?t1 ''finding''"
    by (simp add: REPORT_HEADER_def)
  have d: "fs (snd (report_execute ?t1 ''X|see ### ID: 41'' ?w0)) REPORT_FILE
       = Some (REPORT_HEADER @ report_entry ''001'' ''X'' ?t1 ''see ### ID: 41'')"
    by (rule report_execute_file(1)) simp_all
  have ids: "findall_ids (report_entry ''001'' ''X'' ?t1 ''see ### ID: 41'') = [''001'', ''41'']"
    by (simp only: findall_ids_entry) (simp add: NL_def is_digit_def)
  have e: "get_next_id (fs (snd (report_execute ?t1 ''X|see ### ID: 41'' ?w0))) = Inr ''042''"
  proof -
    have n: "ints_of [''001'', ''41''] = Inr [1, 41]"
      by (simp add: py_int_def MAX_STR_DIGITS_def int_of_digits_def)
    have m: "Suc (list_max [Suc 0, 41]) = 42"
      by simp
    have "get_next_id (fs (snd (report_execute ?t1 ''X|see ### ID: 41'' ?w0)))
            = Inr (format_03d 42)"
      using d
      by (simp add: get_next_id_def Let_def findall_ids_header ids n m
            MAX_STR_DIGITS_def str_nat_42 del: ints_of.simps list_max.simps)
    then show ?thesis by (simp only: format_03d_42)
  qed
  have ids9: "findall_ids (''### ID: '' @ ?nines) = [?nines]"
    by (rule findall_ids_digits) (simp_all add: nines_digits)
  have f: "get_next_id [REPORT_FILE \<mapsto> ''### ID: '' @ ?nines] = Inl (str_to_int_error 4301)"
    using get_next_id_cases(4) [of "[REPORT_FILE \<mapsto> ''### ID: '' @ ?nines]"
                                   "''### ID: '' @ ?nines" ?nines]
    by (simp only: ids9 find_long_nines) simp
  have g: "str_to_int_error 4301
       = ValueError
                (''Exceeds the limit (4300 digits) for integer string conversion: ''
                 @ ''value has 4301 digits; ''
                 @ ''use sys.set_int_max_str_digits() to increase the limit'')"
    by (simp add: str_to_int_error_def str_nat_4301)
  from a b c d e f show ?thesis unfolding g by blast
qed

section \<open>Properties of the signature\<close>











lemma py_str_int_Inr: "py_str_int i = Inr s \<Longrightarrow> s = str_int i"
  by (simp add: py_str_int_def split: if_splits)















end
